theory Spec2Isabelle
  imports Main "HOL-Library.Word"
begin

section \<open>The CoAP network interface (include/coap2/net.h)\<close>

text \<open>
  The repository's source is the public header \<^verbatim>\<open>net.h\<close>. It holds the queue entry
  and context structures, the constants of the I/O entry point, and the bodies of the
  inline functions (\<^verbatim>\<open>coap_new_message_id\<close>, \<^verbatim>\<open>coap_run_once\<close>, the handler
  registrations). Every other function is a declaration with its documented contract.
\<close>

subsection \<open>Sessions and message ids\<close>

text \<open>
  \<^verbatim>\<open>coap_new_message_id\<close> reads and writes \<^verbatim>\<open>session->tx_mid\<close> and returns
  \<^verbatim>\<open>uint16_t\<close>: the counter is a 16-bit word, and \<^verbatim>\<open>++\<close> wraps around. The other
  fields of a session (declared in coap_session.h) are the record's extension.
\<close>

record coap_session_t =
  tx_mid :: "16 word"

text \<open>
  \<^verbatim>\<open>return ++session->tx_mid;\<close>: the counter is incremented first, the value returned
  is the incremented one. The session is returned updated.
\<close>

definition coap_new_message_id ::
  "'a coap_session_t_scheme \<Rightarrow> 16 word \<times> 'a coap_session_t_scheme" where
  "coap_new_message_id session =
     (let session' = session\<lparr>tx_mid := tx_mid session + 1\<rparr>
      in (tx_mid session', session'))"

text \<open>A caller allocating \<open>n\<close> message ids in a row on one session.\<close>

fun new_message_ids ::
  "nat \<Rightarrow> 'a coap_session_t_scheme \<Rightarrow> 16 word list \<times> 'a coap_session_t_scheme" where
  "new_message_ids 0 session = ([], session)"
| "new_message_ids (Suc n) session =
     (let (m, session') = coap_new_message_id session;
          (ms, session'') = new_message_ids n session'
      in (m # ms, session''))"

subsection \<open>The I/O entry point\<close>

text \<open>
  What one prepare/wait/do cycle did, as the platform reports it: an unrecoverable
  I/O error, or the milliseconds spent.
\<close>

datatype io_outcome = Io_error | Io_spent nat

text \<open>
  Modelled from the spec: \<^verbatim>\<open>coap_io_process\<close> (declared in net.h, its body is not in
  the sources). Section 4.5: ``A single call process(ctx, timeout_ms) runs one
  prepare/wait/do cycle. [...] Returns elapsed wall-clock milliseconds, or a negative
  value on unrecoverable I/O error''; the negative value is the \<open>-1\<close> the declaration
  documents. The sockets, the clock and the peers are outside the program: the cycle
  is a parameter \<open>cycle\<close> that, given the context and \<^verbatim>\<open>timeout_ms\<close>, yields the
  outcome and the context as the cycle left it. How long a cycle waits for a given
  \<^verbatim>\<open>timeout_ms\<close> is left to that parameter.
\<close>

definition coap_io_process ::
  "('ctx \<Rightarrow> 32 word \<Rightarrow> io_outcome \<times> 'ctx) \<Rightarrow> 'ctx \<Rightarrow> 32 word \<Rightarrow> int \<times> 'ctx" where
  "coap_io_process cycle ctx timeout_ms =
     (case cycle ctx timeout_ms of
        (Io_error, ctx') \<Rightarrow> (- 1, ctx')
      | (Io_spent ms, ctx') \<Rightarrow> (int ms, ctx'))"

text \<open>
  \<^verbatim>\<open>coap_run_once(ctx, timeout_ms) { return coap_io_process(ctx, timeout_ms); }\<close>
\<close>

definition coap_run_once ::
  "('ctx \<Rightarrow> 32 word \<Rightarrow> io_outcome \<times> 'ctx) \<Rightarrow> 'ctx \<Rightarrow> 32 word \<Rightarrow> int \<times> 'ctx" where
  "coap_run_once cycle ctx timeout_ms = coap_io_process cycle ctx timeout_ms"

text \<open>
  An application loop: one call of the entry point \<open>entry\<close> per timeout of the list,
  each on the context the previous call left; the results are collected.
\<close>

fun io_loop ::
  "('ctx \<Rightarrow> 32 word \<Rightarrow> int \<times> 'ctx) \<Rightarrow> 32 word list \<Rightarrow> 'ctx \<Rightarrow> int list \<times> 'ctx" where
  "io_loop entry [] ctx = ([], ctx)"
| "io_loop entry (timeout_ms # rest) ctx =
     (let (r, ctx') = entry ctx timeout_ms;
          (rs, ctx'') = io_loop entry rest ctx'
      in (r # rs, ctx''))"

subsection \<open>Queue entries\<close>

text \<open>
  \<^verbatim>\<open>coap_tick_t\<close> (coap_time.h) and \<^verbatim>\<open>coap_mid_t\<close> (pdu.h) are declared outside
  the header: ticks are taken as 64-bit unsigned, message ids as the 16-bit value the
  wire format carries. A session pointer is a session reference.
\<close>

type_synonym coap_tick_t = "64 word"
type_synonym coap_mid_t = "16 word"
type_synonym session_ref = nat

text \<open>
  Modelled from the spec: the PDU structure (pdu.h is not in the sources). Section 3:
  type in {CON, NON, ACK, RST}, code (8-bit), message-ID (16-bit), token (0--8 bytes),
  ordered list of options (number and value), optional payload. The type constants are
  named as \<^verbatim>\<open>coap_send_rst\<close> names \<^verbatim>\<open>COAP_MESSAGE_RST\<close>.
\<close>

datatype coap_pdu_type =
  COAP_MESSAGE_CON | COAP_MESSAGE_NON | COAP_MESSAGE_ACK | COAP_MESSAGE_RST

record coap_pdu_t =
  pdu_type :: coap_pdu_type
  code :: "8 word"
  mid :: coap_mid_t
  token :: "8 word list"
  options :: "(nat \<times> 8 word list) list"
  payload :: "8 word list"

text \<open>
  \<^verbatim>\<open>struct coap_queue_t\<close>, field by field; the \<^verbatim>\<open>next\<close> pointer is the list a
  queue is kept in. \<^verbatim>\<open>retransmit_cnt\<close> is an \<^verbatim>\<open>unsigned char\<close>, \<^verbatim>\<open>timeout\<close> an
  \<^verbatim>\<open>unsigned int\<close>. The field \<^verbatim>\<open>id\<close> is written \<open>id'\<close>.
\<close>

record coap_queue_t =
  t :: coap_tick_t
  retransmit_cnt :: "8 word"
  timeout :: "32 word"
  session :: session_ref
  id' :: coap_mid_t
  pdu :: coap_pdu_t

subsection \<open>Retransmission of confirmable messages\<close>

text \<open>
  Modelled from the spec: the reasons a nack handler is given (\<^verbatim>\<open>coap_nack_reason_t\<close>
  is declared outside the header). Section 6: reason in {TIMEOUT, RST, TLS_FAILURE,
  ICMP, CANCELLED}.
\<close>

datatype coap_nack_reason_t = TIMEOUT | RST | TLS_FAILURE | ICMP | CANCELLED








section \<open>Message ids\<close>

lemma new_message_ids_fst:
  "fst (new_message_ids n s) = map (\<lambda>k. tx_mid s + 1 + of_nat k) [0..<n]"
proof (induction n arbitrary: s)
  case 0
  show ?case by simp
next
  case (Suc n)
  have "fst (new_message_ids (Suc n) s) =
        (tx_mid s + 1) # fst (new_message_ids n (s\<lparr>tx_mid := tx_mid s + 1\<rparr>))"
    by (simp add: coap_new_message_id_def Let_def split: prod.splits)
  also have "\<dots> = (tx_mid s + 1) # map (\<lambda>k. tx_mid s + 1 + of_nat (Suc k)) [0..<n]"
    by (simp add: Suc.IH add.assoc add.commute)
  also have "\<dots> = map (\<lambda>k. tx_mid s + 1 + of_nat k) [0..<Suc n]"
    by (simp only: map_upt_Suc) simp
  finally show ?case .
qed

lemma new_message_ids_snd:
  "snd (new_message_ids n s) = s\<lparr>tx_mid := tx_mid s + of_nat n\<rparr>"
proof (induction n arbitrary: s)
  case 0
  show ?case by simp
next
  case (Suc n)
  have "snd (new_message_ids (Suc n) s) =
        snd (new_message_ids n (s\<lparr>tx_mid := tx_mid s + 1\<rparr>))"
    by (simp add: coap_new_message_id_def Let_def split: prod.splits)
  then show ?case by (simp add: Suc.IH add.assoc)
qed

text \<open>
  C4: message-id allocation is a per-session counter that is pre-incremented. A call of
  \<^verbatim>\<open>coap_new_message_id\<close> adds exactly one to the session's \<^verbatim>\<open>tx_mid\<close> (modulo
  \<open>2^16\<close>), changes nothing else of the session, and returns the updated value; the
  ids of \<open>n\<close> allocations in a row on a session whose counter is \<open>m\<close> are
  \<open>m + 1, m + 2, \<dots>, m + n\<close> modulo \<open>2^16\<close>, and the counter ends at \<open>m + n\<close>.
\<close>

theorem C4_message_id_pre_increment:
  "coap_new_message_id s = (tx_mid s + 1, s\<lparr>tx_mid := tx_mid s + 1\<rparr>) \<and>
   fst (coap_new_message_id s) = tx_mid (snd (coap_new_message_id s)) \<and>
   unat (fst (coap_new_message_id s)) = (unat (tx_mid s) + 1) mod 2 ^ 16 \<and>
   fst (new_message_ids n s) = map (\<lambda>k. tx_mid s + 1 + of_nat k) [0..<n] \<and>
   snd (new_message_ids n s) = s\<lparr>tx_mid := tx_mid s + of_nat n\<rparr>"
proof (intro conjI)
  show "coap_new_message_id s = (tx_mid s + 1, s\<lparr>tx_mid := tx_mid s + 1\<rparr>)"
    by (simp add: coap_new_message_id_def Let_def)
  show "fst (coap_new_message_id s) = tx_mid (snd (coap_new_message_id s))"
    by (simp add: coap_new_message_id_def Let_def)
  show "unat (fst (coap_new_message_id s)) = (unat (tx_mid s) + 1) mod 2 ^ 16"
    by (simp add: coap_new_message_id_def Let_def unat_word_ariths)
  show "fst (new_message_ids n s) = map (\<lambda>k. tx_mid s + 1 + of_nat k) [0..<n]"
    by (rule new_message_ids_fst)
  show "snd (new_message_ids n s) = s\<lparr>tx_mid := tx_mid s + of_nat n\<rparr>"
    by (rule new_message_ids_snd)
qed

section \<open>The I/O entry point\<close>

text \<open>
  C10: the deprecated \<^verbatim>\<open>coap_run_once\<close> is a pass-through to \<^verbatim>\<open>coap_io_process\<close>:
  on the same context and timeout it returns the same value and leaves the same
  context, and so does any sequence of calls.
\<close>

theorem C10_run_once_is_io_process:
  "coap_run_once cycle ctx timeout_ms = coap_io_process cycle ctx timeout_ms \<and>
   io_loop (coap_run_once cycle) timeouts ctx = io_loop (coap_io_process cycle) timeouts ctx"
proof -
  have "coap_run_once cycle = coap_io_process cycle"
    by (intro ext) (simp add: coap_run_once_def)
  then show ?thesis by simp
qed

section \<open>Retransmission\<close>












end
